theory Spec2Isabelle
  imports Main
begin

section \<open>JavaScript values\<close>

text \<open>
  The values that reach the manager: the primitives, plain objects as property lists
  (the first binding of a key is the one read), functions and promises. Numbers are
  the integers and NaN; that is all the manager can tell apart, since it only tests a
  number for truthiness and for its type.
\<close>

datatype jsval =
    JUndefined
  | JNull
  | JBool bool
  | JNum int
  | JNaN
  | JStr string
  | JObj "(string \<times> jsval) list"
  | JFun nat
  | JPromise

datatype error =
    ArgumentError string
  | TypeError string
  | RequestError string

fun typeof :: "jsval \<Rightarrow> string" where
  "typeof JUndefined = ''undefined''"
| "typeof JNull = ''object''"
| "typeof (JBool b) = ''boolean''"
| "typeof (JNum n) = ''number''"
| "typeof JNaN = ''number''"
| "typeof (JStr s) = ''string''"
| "typeof (JObj ps) = ''object''"
| "typeof (JFun f) = ''function''"
| "typeof JPromise = ''object''"

fun truthy :: "jsval \<Rightarrow> bool" where
  "truthy JUndefined = False"
| "truthy JNull = False"
| "truthy (JBool b) = b"
| "truthy (JNum n) = (n \<noteq> 0)"
| "truthy JNaN = False"
| "truthy (JStr s) = (s \<noteq> [])"
| "truthy (JObj ps) = True"
| "truthy (JFun f) = True"
| "truthy JPromise = True"

text \<open>\<open>a || b\<close>\<close>

definition js_or :: "jsval \<Rightarrow> jsval \<Rightarrow> jsval" where
  "js_or a b = (if truthy a then a else b)"

text \<open>\<open>v instanceof Function\<close>\<close>

fun instanceof_Function :: "jsval \<Rightarrow> bool" where
  "instanceof_Function (JFun f) = True"
| "instanceof_Function v = False"

text \<open>
  \<open>v.k\<close> for the keys the manager reads (\<open>baseUrl\<close>, \<open>headers\<close>, \<open>tokenProvider\<close>,
  \<open>retry\<close>, \<open>id\<close>, \<open>connection_id\<close>): reading a property of \<open>undefined\<close> or \<open>null\<close>
  raises a TypeError, a primitive, a function or a promise has none of these keys.
\<close>

definition own_prop :: "(string \<times> jsval) list \<Rightarrow> string \<Rightarrow> jsval" where
  "own_prop ps k = (case map_of ps k of Some v \<Rightarrow> v | None \<Rightarrow> JUndefined)"

fun get_prop :: "jsval \<Rightarrow> string \<Rightarrow> error + jsval" where
  "get_prop JUndefined k = Inl (TypeError ''Cannot read properties of undefined'')"
| "get_prop JNull k = Inl (TypeError ''Cannot read properties of null'')"
| "get_prop (JObj ps) k = Inr (own_prop ps k)"
| "get_prop v k = Inr JUndefined"

text \<open>\<open>s.length\<close> of a string value (read only after \<open>typeof\<close> has said string).\<close>

fun str_of :: "jsval \<Rightarrow> string" where
  "str_of (JStr s) = s"
| "str_of v = []"

section \<open>Clients and the observable world\<close>

record client_options =
  headers :: jsval
  query_repeatParams :: bool

record rest_client =
  resourceUrl :: string
  options :: client_options
  provider :: jsval

record retry_client =
  restClient :: rest_client
  retry :: jsval

record manager =
  organizations :: retry_client
  connections :: retry_client
  members :: retry_client

text \<open>
  What the manager does to its collaborators, in order: the clients it builds and the
  methods it calls on them (client, method name, actual arguments).
\<close>

datatype event =
    NewAuth0RestClient string client_options jsval
  | NewRetryRestClient rest_client jsval
  | Call retry_client string "jsval list"

type_synonym world = "event list"

text \<open>
  Modelled from the spec: the constructors of the Templated Resource Client
  (\<open>Auth0RestClient\<close>) and of the Retry Decorator (\<open>RetryRestClient\<close>), whose files are
  not among the sources. The first binds a template to its options and credential
  source, the second wraps a client with a retry policy passed opaquely; each
  construction is recorded.
\<close>

definition Auth0RestClient ::
  "string \<Rightarrow> client_options \<Rightarrow> jsval \<Rightarrow> world \<Rightarrow> rest_client \<times> world" where
  "Auth0RestClient u opts tp w =
     (\<lparr>resourceUrl = u, options = opts, provider = tp\<rparr>, w @ [NewAuth0RestClient u opts tp])"

definition RetryRestClient :: "rest_client \<Rightarrow> jsval \<Rightarrow> world \<Rightarrow> retry_client \<times> world" where
  "RetryRestClient c r w = (\<lparr>restClient = c, retry = r\<rparr>, w @ [NewRetryRestClient c r])"

text \<open>
  What a client's method hands back to its caller at once (a value, or a synchronous
  throw) is the collaborator's business: the manager's operations take it as a
  parameter.
\<close>

type_synonym transport = "retry_client \<Rightarrow> string \<Rightarrow> jsval list \<Rightarrow> error + jsval"

definition invoke ::
  "transport \<Rightarrow> retry_client \<Rightarrow> string \<Rightarrow> jsval list \<Rightarrow> world \<Rightarrow> (error + jsval) \<times> world" where
  "invoke T c m args w = (T c m args, w @ [Call c m args])"

section \<open>OrganizationsManager\<close>

definition OrganizationsManager :: "jsval \<Rightarrow> world \<Rightarrow> (error + manager) \<times> world" where
  "OrganizationsManager opts w =
     (if opts = JNull \<or> typeof opts \<noteq> ''object'' then
        (Inl (ArgumentError ''Must provide manager options''), w)
      else
        (case get_prop opts ''baseUrl'' of
           Inl e \<Rightarrow> (Inl e, w)
         | Inr baseUrl \<Rightarrow>
             if baseUrl = JNull \<or> baseUrl = JUndefined then
               (Inl (ArgumentError ''Must provide a base URL for the API''), w)
             else if ''string'' \<noteq> typeof baseUrl \<or> length (str_of baseUrl) = 0 then
               (Inl (ArgumentError ''The provided base URL is invalid''), w)
             else
               (case get_prop opts ''headers'' of
                  Inl e \<Rightarrow> (Inl e, w)
                | Inr hdrs \<Rightarrow>
               (case get_prop opts ''tokenProvider'' of
                  Inl e \<Rightarrow> (Inl e, w)
                | Inr tokenProvider \<Rightarrow>
               (case get_prop opts ''retry'' of
                  Inl e \<Rightarrow> (Inl e, w)
                | Inr rt \<Rightarrow>
                    let clientOptions = \<lparr>headers = hdrs, query_repeatParams = False\<rparr>;
                        (auth0RestClient, w1) =
                          Auth0RestClient (str_of baseUrl @ ''/organizations/:id'')
                            clientOptions tokenProvider w;
                        (orgs, w2) = RetryRestClient auth0RestClient rt w1;
                        (connectionsInRoleClient, w3) =
                          Auth0RestClient
                            (str_of baseUrl @ ''/organizations/:id/enabled_connections/:connection_id'')
                            clientOptions tokenProvider w2;
                        (conns, w4) = RetryRestClient connectionsInRoleClient rt w3;
                        (membersClient, w5) =
                          Auth0RestClient (str_of baseUrl @ ''/organizations/:id/members'')
                            clientOptions tokenProvider w4;
                        (mems, w6) = RetryRestClient membersClient rt w5
                    in (Inr \<lparr>organizations = orgs, connections = conns, members = mems\<rparr>, w6))))))"

section \<open>The prototype methods written out in the source\<close>

definition getEnabledConnections ::
  "transport \<Rightarrow> manager \<Rightarrow> jsval \<Rightarrow> jsval \<Rightarrow> world \<Rightarrow> (error + jsval) \<times> world" where
  "getEnabledConnections T this params callback w =
     invoke T (connections this) ''getAll'' [params, callback] w"

definition getEnabledConnection ::
  "transport \<Rightarrow> manager \<Rightarrow> jsval \<Rightarrow> jsval \<Rightarrow> world \<Rightarrow> (error + jsval) \<times> world" where
  "getEnabledConnection T this params callback w =
     invoke T (connections this) ''get'' [params, callback] w"

definition addEnabledConnection ::
  "transport \<Rightarrow> manager \<Rightarrow> jsval \<Rightarrow> jsval \<Rightarrow> jsval \<Rightarrow> world \<Rightarrow> (error + jsval) \<times> world" where
  "addEnabledConnection T this params0 data0 cb w =
     (let data = js_or data0 (JObj []);
          params = js_or params0 (JObj [])
      in case get_prop params ''id'' of
           Inl e \<Rightarrow> (Inl e, w)
         | Inr pid \<Rightarrow>
             if \<not> truthy pid then
               (Inl (ArgumentError
                  ''The organizationId passed in params cannot be null or undefined''), w)
             else if typeof pid \<noteq> ''string'' then
               (Inl (ArgumentError ''The organization Id has to be a string''), w)
             else if truthy cb \<and> instanceof_Function cb then
               invoke T (connections this) ''create'' [params, data, cb] w
             else invoke T (connections this) ''create'' [params, data] w)"

definition removeEnabledConnection ::
  "transport \<Rightarrow> manager \<Rightarrow> jsval \<Rightarrow> jsval \<Rightarrow> world \<Rightarrow> (error + jsval) \<times> world" where
  "removeEnabledConnection T this params0 cb w =
     (let params = js_or params0 (JObj [])
      in case get_prop params ''id'' of
           Inl e \<Rightarrow> (Inl e, w)
         | Inr pid \<Rightarrow>
             if \<not> truthy pid then
               (Inl (ArgumentError
                  ''The organization ID passed in params cannot be null or undefined''), w)
             else if typeof pid \<noteq> ''string'' then
               (Inl (ArgumentError ''The organization ID has to be a string''), w)
             else
               (case get_prop params ''connection_id'' of
                  Inl e \<Rightarrow> (Inl e, w)
                | Inr cid \<Rightarrow>
                    if \<not> truthy cid then
                      (Inl (ArgumentError
                         ''The connection ID passed in params cannot be null or undefined''), w)
                    else if typeof cid \<noteq> ''string'' then
                      (Inl (ArgumentError ''The connection ID has to be a string''), w)
                    else if truthy cb \<and> instanceof_Function cb then
                      invoke T (connections this) ''delete'' [params, JObj [], cb] w
                    else invoke T (connections this) ''delete'' [params, JObj []] w))"

section \<open>The methods attached by \<open>utils.wrapPropertyMethod\<close>\<close>

text \<open>
  The five registrations of the source, as (method name, target) pairs, in the order
  they are made.
\<close>

definition wrapped_methods :: "(string \<times> string) list" where
  "wrapped_methods =
     [(''create'', ''organizations.create''),
      (''getAll'', ''organizations.getAll''),
      (''get'', ''organizations.get''),
      (''update'', ''organizations.patch''),
      (''delete'', ''organizations.delete'')]"

text \<open>
  Modelled from the spec: \<open>utils.wrapPropertyMethod\<close>, whose file is not among the
  sources. It is the generic binder that re-attaches a client's verb onto the manager:
  the method registered under a name forwards its actual arguments, unchanged, to
  the method after the dot of the manager's property before the dot. The manager has
  the three properties its constructor assigns.
\<close>

definition split_dot :: "string \<Rightarrow> string \<times> string" where
  "split_dot target =
     (takeWhile (\<lambda>c. c \<noteq> CHR ''.'') target, drop 1 (dropWhile (\<lambda>c. c \<noteq> CHR ''.'') target))"

definition property_of :: "manager \<Rightarrow> string \<Rightarrow> retry_client option" where
  "property_of this p =
     (if p = ''organizations'' then Some (organizations this)
      else if p = ''connections'' then Some (connections this)
      else if p = ''members'' then Some (members this)
      else None)"

definition call_wrapped ::
  "transport \<Rightarrow> manager \<Rightarrow> string \<Rightarrow> jsval list \<Rightarrow> world \<Rightarrow> (error + jsval) \<times> world" where
  "call_wrapped T this name args w =
     (case map_of wrapped_methods name of
        None \<Rightarrow> (Inl (TypeError ''is not a function''), w)
      | Some target \<Rightarrow>
          (case property_of this (fst (split_dot target)) of
             None \<Rightarrow> (Inl (TypeError ''Cannot read properties of undefined''), w)
           | Some c \<Rightarrow> invoke T c (snd (split_dot target)) args w))"

definition mgr_create ::
  "transport \<Rightarrow> manager \<Rightarrow> jsval list \<Rightarrow> world \<Rightarrow> (error + jsval) \<times> world" where
  "mgr_create T this args w = call_wrapped T this ''create'' args w"

definition mgr_getAll ::
  "transport \<Rightarrow> manager \<Rightarrow> jsval list \<Rightarrow> world \<Rightarrow> (error + jsval) \<times> world" where
  "mgr_getAll T this args w = call_wrapped T this ''getAll'' args w"

definition mgr_get ::
  "transport \<Rightarrow> manager \<Rightarrow> jsval list \<Rightarrow> world \<Rightarrow> (error + jsval) \<times> world" where
  "mgr_get T this args w = call_wrapped T this ''get'' args w"

definition mgr_update ::
  "transport \<Rightarrow> manager \<Rightarrow> jsval list \<Rightarrow> world \<Rightarrow> (error + jsval) \<times> world" where
  "mgr_update T this args w = call_wrapped T this ''update'' args w"

definition mgr_delete ::
  "transport \<Rightarrow> manager \<Rightarrow> jsval list \<Rightarrow> world \<Rightarrow> (error + jsval) \<times> world" where
  "mgr_delete T this args w = call_wrapped T this ''delete'' args w"

section \<open>Endpoint templates\<close>

text \<open>
  Modelled from the spec: template resolution, which happens inside the Templated
  Resource Client and is not among the sources. A template is cut at its separators;
  a segment that is a colon followed by a name is a placeholder. Placeholders are
  scanned left to right: one whose name has a non-empty value in the parameter mapping
  is replaced by the value, verbatim; one without a value is dropped together with the
  separator before it when nothing but placeholders follows it, and is an error
  otherwise. The values of the mapping are its string properties: the spec gives no
  textual form to any other kind of value, which therefore counts as missing here.
\<close>

fun split_slash :: "string \<Rightarrow> string list" where
  "split_slash [] = [[]]"
| "split_slash (c # cs) =
     (if c = CHR ''/'' then [] # split_slash cs
      else (case split_slash cs of [] \<Rightarrow> [[c]] | s # ss \<Rightarrow> (c # s) # ss))"

fun join_slash :: "string list \<Rightarrow> string" where
  "join_slash [] = []"
| "join_slash [s] = s"
| "join_slash (s # t # ss) = s @ CHR ''/'' # join_slash (t # ss)"

definition is_placeholder :: "string \<Rightarrow> bool" where
  "is_placeholder seg = (case seg of [] \<Rightarrow> False | c # name \<Rightarrow> c = CHR '':'' \<and> name \<noteq> [])"

definition param_value :: "jsval \<Rightarrow> string \<Rightarrow> string option" where
  "param_value params name =
     (case get_prop params name of
        Inr (JStr v) \<Rightarrow> (if v = [] then None else Some v)
      | _ \<Rightarrow> None)"

fun resolve_segments :: "jsval \<Rightarrow> string list \<Rightarrow> error + string list" where
  "resolve_segments params [] = Inr []"
| "resolve_segments params (seg # rest) =
     (if is_placeholder seg then
        (case param_value params (tl seg) of
           Some v \<Rightarrow>
             (case resolve_segments params rest of
                Inl e \<Rightarrow> Inl e
              | Inr r \<Rightarrow> Inr (v # r))
         | None \<Rightarrow>
             if list_all is_placeholder rest then resolve_segments params rest
             else Inl (ArgumentError ''a path parameter is missing''))
      else
        (case resolve_segments params rest of
           Inl e \<Rightarrow> Inl e
         | Inr r \<Rightarrow> Inr (seg # r)))"

definition resolve :: "string \<Rightarrow> jsval \<Rightarrow> error + string" where
  "resolve template params =
     (case resolve_segments params (split_slash template) of
        Inl e \<Rightarrow> Inl e
      | Inr segs \<Rightarrow> Inr (join_slash segs))"

text \<open>
  The address a call on a client asks for: the client's template resolved with the
  call's first argument (\<open>undefined\<close> when there is none).
\<close>

definition request_url :: "retry_client \<Rightarrow> jsval list \<Rightarrow> error + string" where
  "request_url c args =
     resolve (resourceUrl (restClient c)) (case args of [] \<Rightarrow> JUndefined | a # _ \<Rightarrow> a)"

text \<open>A base address none of whose segments reads as a placeholder.\<close>

definition plain_base :: "string \<Rightarrow> bool" where
  "plain_base b = list_all (\<lambda>seg. \<not> is_placeholder seg) (split_slash b)"

section \<open>The words of the specification\<close>

text \<open>The options that construct: an object whose \<open>baseUrl\<close> is a non-empty string.\<close>

definition well_formed_options :: "jsval \<Rightarrow> bool" where
  "well_formed_options opts =
     (case opts of
        JObj ps \<Rightarrow> (case map_of ps ''baseUrl'' of Some (JStr b) \<Rightarrow> b \<noteq> [] | _ \<Rightarrow> False)
      | _ \<Rightarrow> False)"

text \<open>
  A retry-decorated client bound to a template rooted at a base address, with the
  options the manager gives to every client.
\<close>

definition client_on :: "string \<Rightarrow> string \<Rightarrow> jsval \<Rightarrow> jsval \<Rightarrow> jsval \<Rightarrow> retry_client" where
  "client_on b template hdrs tp rt =
     \<lparr>restClient =
        \<lparr>resourceUrl = b @ template,
         options = \<lparr>headers = hdrs, query_repeatParams = False\<rparr>,
         provider = tp\<rparr>,
      retry = rt\<rparr>"

text \<open>
  What \<open>params.k\<close> reads in the two guarded methods, that is after
  \<open>params = params || {}\<close>; \<open>undefined\<close> when the key is absent.
\<close>

definition param_of :: "jsval \<Rightarrow> string \<Rightarrow> jsval" where
  "param_of params k =
     (case get_prop (js_or params (JObj [])) k of Inr v \<Rightarrow> v | Inl e \<Rightarrow> JUndefined)"

text \<open>An identifier that is present and a string: a string that is not empty.\<close>

definition present_string :: "jsval \<Rightarrow> bool" where
  "present_string v = (case v of JStr s \<Rightarrow> s \<noteq> [] | _ \<Rightarrow> False)"

text \<open>A manager on a base address with no headers, credential source or retry policy.\<close>

definition plain_manager :: "string \<Rightarrow> manager" where
  "plain_manager b =
     \<lparr>organizations = client_on b ''/organizations/:id'' JUndefined JUndefined JUndefined,
      connections =
        client_on b ''/organizations/:id/enabled_connections/:connection_id''
          JUndefined JUndefined JUndefined,
      members = client_on b ''/organizations/:id/members'' JUndefined JUndefined JUndefined\<rparr>"

section \<open>Construction\<close>

lemma OrganizationsManager_rejects:
  "\<not> well_formed_options opts \<Longrightarrow>
     \<exists>msg. OrganizationsManager opts w = (Inl (ArgumentError msg), w)"
  by (cases opts)
     (auto simp: OrganizationsManager_def well_formed_options_def own_prop_def
           split: option.splits jsval.splits)

lemma OrganizationsManager_builds:
  assumes "map_of ps ''baseUrl'' = Some (JStr b)" and "b \<noteq> []"
  shows "OrganizationsManager (JObj ps) w =
     (Inr \<lparr>organizations =
             client_on b ''/organizations/:id''
               (own_prop ps ''headers'') (own_prop ps ''tokenProvider'') (own_prop ps ''retry''),
           connections =
             client_on b ''/organizations/:id/enabled_connections/:connection_id''
               (own_prop ps ''headers'') (own_prop ps ''tokenProvider'') (own_prop ps ''retry''),
           members =
             client_on b ''/organizations/:id/members''
               (own_prop ps ''headers'') (own_prop ps ''tokenProvider'') (own_prop ps ''retry'')\<rparr>,
      w @ [NewAuth0RestClient (b @ ''/organizations/:id'')
             \<lparr>headers = own_prop ps ''headers'', query_repeatParams = False\<rparr>
             (own_prop ps ''tokenProvider''),
           NewRetryRestClient
             (restClient (client_on b ''/organizations/:id''
                (own_prop ps ''headers'') (own_prop ps ''tokenProvider'') (own_prop ps ''retry'')))
             (own_prop ps ''retry''),
           NewAuth0RestClient (b @ ''/organizations/:id/enabled_connections/:connection_id'')
             \<lparr>headers = own_prop ps ''headers'', query_repeatParams = False\<rparr>
             (own_prop ps ''tokenProvider''),
           NewRetryRestClient
             (restClient (client_on b ''/organizations/:id/enabled_connections/:connection_id''
                (own_prop ps ''headers'') (own_prop ps ''tokenProvider'') (own_prop ps ''retry'')))
             (own_prop ps ''retry''),
           NewAuth0RestClient (b @ ''/organizations/:id/members'')
             \<lparr>headers = own_prop ps ''headers'', query_repeatParams = False\<rparr>
             (own_prop ps ''tokenProvider''),
           NewRetryRestClient
             (restClient (client_on b ''/organizations/:id/members''
                (own_prop ps ''headers'') (own_prop ps ''tokenProvider'') (own_prop ps ''retry'')))
             (own_prop ps ''retry'')])"
  using assms
  by (simp add: OrganizationsManager_def Auth0RestClient_def RetryRestClient_def
        client_on_def own_prop_def Let_def)

lemma well_formed_optionsE:
  assumes "well_formed_options opts"
  obtains ps b where "opts = JObj ps" and "map_of ps ''baseUrl'' = Some (JStr b)" and "b \<noteq> []"
proof -
  from assms obtain ps where 1: "opts = JObj ps"
    by (cases opts) (simp_all add: well_formed_options_def)
  with assms obtain v where 2: "map_of ps ''baseUrl'' = Some v"
    by (cases "map_of ps ''baseUrl''") (simp_all add: well_formed_options_def)
  with assms 1 obtain b where "v = JStr b" and "b \<noteq> []"
    by (cases v) (simp_all add: well_formed_options_def)
  with 1 2 that show thesis by blast
qed

lemma built_manager_clients:
  assumes "OrganizationsManager opts w0 = (Inr M, w1)"
    and "get_prop opts ''baseUrl'' = Inr (JStr b)"
  shows "resourceUrl (restClient (organizations M)) = b @ ''/organizations/:id''
       \<and> resourceUrl (restClient (connections M)) =
           b @ ''/organizations/:id/enabled_connections/:connection_id''
       \<and> resourceUrl (restClient (members M)) = b @ ''/organizations/:id/members''"
proof -
  have wf: "well_formed_options opts"
    using OrganizationsManager_rejects [of opts w0] assms(1) by auto
  then obtain ps b' where o: "opts = JObj ps" and m: "map_of ps ''baseUrl'' = Some (JStr b')"
    and ne: "b' \<noteq> []"
    by (rule well_formed_optionsE)
  from o m assms(2) have "b' = b" by (simp add: own_prop_def)
  with OrganizationsManager_builds [OF m ne, of w0] assms(1) o show ?thesis
    by (auto simp: client_on_def)
qed

section \<open>Dispatch of the wrapped methods\<close>


lemma call_wrapped_update:
  "call_wrapped T m ''update'' args w = invoke T (organizations m) ''patch'' args w"
  by (simp add: call_wrapped_def wrapped_methods_def split_dot_def property_of_def)

section \<open>The guards of the two validated methods\<close>

lemma get_prop_js_or: "get_prop (js_or params (JObj [])) k = Inr (param_of params k)"
  by (cases params) (simp_all add: js_or_def param_of_def)

lemma present_string_iff: "present_string v \<longleftrightarrow> truthy v \<and> typeof v = ''string''"
  by (cases v) (simp_all add: present_string_def)

lemma present_param_keeps_params:
  "present_string (param_of params k) \<Longrightarrow> js_or params (JObj []) = params"
  by (cases params)
     (auto simp: js_or_def param_of_def present_string_def own_prop_def split: if_splits)

lemma function_truthy: "instanceof_Function cb \<Longrightarrow> truthy cb"
  by (cases cb) simp_all

lemma addEnabledConnection_invalid:
  "\<not> present_string (param_of params ''id'') \<Longrightarrow>
     \<exists>msg. addEnabledConnection T M params data cb w = (Inl (ArgumentError msg), w)"
  by (auto simp: addEnabledConnection_def Let_def get_prop_js_or present_string_iff)

lemma addEnabledConnection_valid:
  assumes "present_string (param_of params ''id'')"
  shows "addEnabledConnection T M params data cb w =
     invoke T (connections M) ''create''
       ([params, js_or data (JObj [])] @ (if instanceof_Function cb then [cb] else [])) w"
proof -
  have p: "js_or params (JObj []) = params"
    by (rule present_param_keeps_params [OF assms])
  have g: "get_prop params ''id'' = Inr (param_of params ''id'')"
    using get_prop_js_or [of params "''id''"] p by simp
  show ?thesis
    using assms
    by (auto simp: addEnabledConnection_def Let_def p g present_string_iff function_truthy)
qed

lemma removeEnabledConnection_invalid:
  "\<not> (present_string (param_of params ''id'') \<and> present_string (param_of params ''connection_id'')) \<Longrightarrow>
     \<exists>msg. removeEnabledConnection T M params cb w = (Inl (ArgumentError msg), w)"
  by (auto simp: removeEnabledConnection_def Let_def get_prop_js_or present_string_iff)

lemma removeEnabledConnection_valid:
  assumes "present_string (param_of params ''id'')"
    and "present_string (param_of params ''connection_id'')"
  shows "removeEnabledConnection T M params cb w =
     invoke T (connections M) ''delete''
       ([params, JObj []] @ (if instanceof_Function cb then [cb] else [])) w"
proof -
  have p: "js_or params (JObj []) = params"
    by (rule present_param_keeps_params [OF assms(1)])
  have g: "get_prop params ''id'' = Inr (param_of params ''id'')"
    "get_prop params ''connection_id'' = Inr (param_of params ''connection_id'')"
    using get_prop_js_or [of params "''id''"] get_prop_js_or [of params "''connection_id''"] p
    by simp_all
  show ?thesis
    using assms
    by (auto simp: removeEnabledConnection_def Let_def p g present_string_iff function_truthy)
qed

section \<open>Resolution of rooted templates\<close>

lemma split_slash_not_Nil: "split_slash s \<noteq> []"
  by (induction s) (auto split: list.splits)

lemma split_slash_append:
  "split_slash (b @ CHR ''/'' # t) = split_slash b @ split_slash t"
proof (induction b)
  case Nil
  show ?case by simp
next
  case (Cons c b)
  obtain s ss where "split_slash b = s # ss"
    using split_slash_not_Nil [of b] by (cases "split_slash b") auto
  with Cons show ?case by simp
qed

lemma join_slash_append:
  "xs \<noteq> [] \<Longrightarrow> ys \<noteq> [] \<Longrightarrow>
     join_slash (xs @ ys) = join_slash xs @ CHR ''/'' # join_slash ys"
proof (induction xs rule: join_slash.induct)
  case 1
  then show ?case by simp
next
  case (2 s)
  then show ?case by (cases ys) simp_all
next
  case (3 s t ss)
  then show ?case by simp
qed

lemma join_split_slash: "join_slash (split_slash s) = s"
proof (induction s)
  case Nil
  show ?case by simp
next
  case (Cons c s)
  show ?case
  proof (cases "split_slash s")
    case Nil
    then show ?thesis using split_slash_not_Nil [of s] by simp
  next
    case (Cons x xs)
    with Cons.IH show ?thesis by (cases xs) auto
  qed
qed

lemma resolve_segments_plain_prefix:
  "list_all (\<lambda>seg. \<not> is_placeholder seg) bs \<Longrightarrow>
     resolve_segments p (bs @ ts) =
       (case resolve_segments p ts of Inl e \<Rightarrow> Inl e | Inr r \<Rightarrow> Inr (bs @ r))"
  by (induction bs) (auto split: sum.splits)

lemma resolve_rooted:
  assumes "plain_base b" and "resolve_segments p (split_slash t) = Inr r" and "r \<noteq> []"
  shows "resolve (b @ CHR ''/'' # t) p = Inr (b @ CHR ''/'' # join_slash r)"
proof -
  have "resolve_segments p (split_slash (b @ CHR ''/'' # t)) = Inr (split_slash b @ r)"
    using assms(1,2)
    by (simp add: split_slash_append resolve_segments_plain_prefix plain_base_def)
  then show ?thesis
    using assms(3)
    by (simp add: resolve_def join_slash_append split_slash_not_Nil join_split_slash)
qed

lemma connections_collection:
  assumes "param_value p ''id'' = Some s" and "param_value p ''connection_id'' = None"
  shows "resolve_segments p
           (split_slash ''organizations/:id/enabled_connections/:connection_id'')
         = Inr [''organizations'', s, ''enabled_connections'']"
  using assms by (simp add: is_placeholder_def)

lemma connections_item:
  assumes "param_value p ''id'' = Some s" and "param_value p ''connection_id'' = Some c"
  shows "resolve_segments p
           (split_slash ''organizations/:id/enabled_connections/:connection_id'')
         = Inr [''organizations'', s, ''enabled_connections'', c]"
  using assms by (simp add: is_placeholder_def)

lemma param_value_present:
  "param_of params k = JStr s \<Longrightarrow> s \<noteq> [] \<Longrightarrow> param_value params k = Some s"
  by (cases params)
     (auto simp: param_of_def param_value_def js_or_def own_prop_def split: if_splits)

lemma invoke_changes_world: "invoke T c m args w \<noteq> (r, w)"
  by (simp add: invoke_def)

lemma addEnabledConnection_no_TypeError:
  "addEnabledConnection T M params data cb w \<noteq> (Inl (TypeError m), w)"
proof (cases "present_string (param_of params ''id'')")
  case True
  then show ?thesis by (simp add: addEnabledConnection_valid invoke_changes_world)
next
  case False
  then show ?thesis using addEnabledConnection_invalid [of params T M data cb w] by auto
qed

lemma removeEnabledConnection_no_TypeError:
  "removeEnabledConnection T M params cb w \<noteq> (Inl (TypeError m), w)"
proof (cases "present_string (param_of params ''id'') \<and> present_string (param_of params ''connection_id'')")
  case True
  then show ?thesis by (simp add: removeEnabledConnection_valid invoke_changes_world)
next
  case False
  then show ?thesis using removeEnabledConnection_invalid [of params T M cb w] by auto
qed

lemma request_url_connections_collection:
  assumes "resourceUrl (restClient c) = b @ ''/organizations/:id/enabled_connections/:connection_id''"
    and "plain_base b"
    and "param_value p ''id'' = Some s" and "param_value p ''connection_id'' = None"
  shows "request_url c (p # rest) = Inr (b @ ''/organizations/'' @ s @ ''/enabled_connections'')"
  using resolve_rooted [OF assms(2) connections_collection [OF assms(3,4)]]
  by (simp add: request_url_def assms(1))

lemma request_url_connections_item:
  assumes "resourceUrl (restClient c) = b @ ''/organizations/:id/enabled_connections/:connection_id''"
    and "plain_base b"
    and "param_value p ''id'' = Some s" and "param_value p ''connection_id'' = Some i"
  shows "request_url c (p # rest) =
           Inr (b @ ''/organizations/'' @ s @ ''/enabled_connections/'' @ i)"
  using resolve_rooted [OF assms(2) connections_item [OF assms(3,4)]]
  by (simp add: request_url_def assms(1))

lemma plain_manager_built:
  "b \<noteq> [] \<Longrightarrow>
     \<exists>evs. OrganizationsManager (JObj [(''baseUrl'', JStr b)]) w = (Inr (plain_manager b), evs)"
  by (simp add: OrganizationsManager_builds [of "[(''baseUrl'', JStr b)]" b]
        plain_manager_def own_prop_def)

lemma example_base: "plain_base ''https://tenant.example/api/v2''"
  by (simp add: plain_base_def is_placeholder_def)

section \<open>Claims\<close>



text \<open>
  C4. The manager's \<open>update\<close> forwards its arguments, unchanged, in exactly one call
  to the organizations client: the source registers it on \<open>organizations.patch\<close>, the
  client's partial-update verb (the one the specification calls update with
  partial-update semantics).
\<close>

theorem update_delegates_to_patch:
  "mgr_update T M args w =
     (T (organizations M) ''patch'' args, w @ [Call (organizations M) ''patch'' args])"
  by (simp add: mgr_update_def call_wrapped_update invoke_def)

text \<open>
  C8. \<open>getEnabledConnections\<close> and \<open>getEnabledConnection\<close> check nothing: for every
  \<open>params\<close> and callback, whatever they are, each makes exactly one call, \<open>getAll\<close>
  respectively \<open>get\<close>, on the connections client with \<open>params\<close> and the callback as
  they came, and its outcome is the client's outcome. The manager adds no throw of
  its own.
\<close>

theorem enabled_connection_reads_delegate:
  "getEnabledConnections T M params callback w =
     (T (connections M) ''getAll'' [params, callback],
      w @ [Call (connections M) ''getAll'' [params, callback]])
   \<and> getEnabledConnection T M params callback w =
     (T (connections M) ''get'' [params, callback],
      w @ [Call (connections M) ''get'' [params, callback]])"
  by (simp add: getEnabledConnections_def getEnabledConnection_def invoke_def)

text \<open>
  C7. For options whose \<open>baseUrl\<close> is the non-empty string \<open>b\<close>, construction makes
  exactly six constructions, in this order: a client on \<open>b\<close> followed by
  \<open>/organizations/:id\<close> and its retry decoration, a client on \<open>b\<close> followed by
  \<open>/organizations/:id/enabled_connections/:connection_id\<close> and its retry decoration,
  a client on \<open>b\<close> followed by \<open>/organizations/:id/members\<close> and its retry
  decoration. The three decorated clients are the manager's \<open>organizations\<close>,
  \<open>connections\<close> and \<open>members\<close>; the templates are literals of the constructor, and
  no operation takes or returns a manager other than the one it is called on.
\<close>

theorem construction_builds_three_clients:
  assumes "map_of ps ''baseUrl'' = Some (JStr b)" and "b \<noteq> []"
    and "h = own_prop ps ''headers''" and "tp = own_prop ps ''tokenProvider''"
    and "rt = own_prop ps ''retry''"
  shows "\<exists>m.
     organizations m = client_on b ''/organizations/:id'' h tp rt
     \<and> connections m =
         client_on b ''/organizations/:id/enabled_connections/:connection_id'' h tp rt
     \<and> members m = client_on b ''/organizations/:id/members'' h tp rt
     \<and> OrganizationsManager (JObj ps) w =
         (Inr m,
          w @ [NewAuth0RestClient (b @ ''/organizations/:id'')
                 \<lparr>headers = h, query_repeatParams = False\<rparr> tp,
               NewRetryRestClient (restClient (organizations m)) rt,
               NewAuth0RestClient (b @ ''/organizations/:id/enabled_connections/:connection_id'')
                 \<lparr>headers = h, query_repeatParams = False\<rparr> tp,
               NewRetryRestClient (restClient (connections m)) rt,
               NewAuth0RestClient (b @ ''/organizations/:id/members'')
                 \<lparr>headers = h, query_repeatParams = False\<rparr> tp,
               NewRetryRestClient (restClient (members m)) rt])"
proof -
  let ?m = "\<lparr>organizations = client_on b ''/organizations/:id'' h tp rt,
            connections =
              client_on b ''/organizations/:id/enabled_connections/:connection_id'' h tp rt,
            members = client_on b ''/organizations/:id/members'' h tp rt\<rparr>"
  show ?thesis
    by (rule exI [of _ ?m])
       (simp add: OrganizationsManager_builds [OF assms(1,2)] assms(3-5))
qed

theorem construction_builds_three_clients_witness:
  "\<exists>m. organizations m = client_on ''https://tenant.example/api/v2'' ''/organizations/:id''
           JUndefined JUndefined (JObj [(''maxRetries'', JNum 3)])
     \<and> connections m = client_on ''https://tenant.example/api/v2''
           ''/organizations/:id/enabled_connections/:connection_id''
           JUndefined JUndefined (JObj [(''maxRetries'', JNum 3)])
     \<and> members m = client_on ''https://tenant.example/api/v2'' ''/organizations/:id/members''
           JUndefined JUndefined (JObj [(''maxRetries'', JNum 3)])
     \<and> fst (OrganizationsManager
           (JObj [(''baseUrl'', JStr ''https://tenant.example/api/v2''),
                  (''retry'', JObj [(''maxRetries'', JNum 3)])]) []) = Inr m
     \<and> length (snd (OrganizationsManager
           (JObj [(''baseUrl'', JStr ''https://tenant.example/api/v2''),
                  (''retry'', JObj [(''maxRetries'', JNum 3)])]) [])) = 6"
proof -
  have a: "map_of [(''baseUrl'', JStr ''https://tenant.example/api/v2''),
                   (''retry'', JObj [(''maxRetries'', JNum 3)])] ''baseUrl''
           = Some (JStr ''https://tenant.example/api/v2'')"
    by simp
  have b: "''https://tenant.example/api/v2'' \<noteq> []" by simp
  from construction_builds_three_clients [OF a b refl refl refl, of "[]"]
  show ?thesis by (auto simp: own_prop_def)
qed

text \<open>
  C5. A validation failure of the constructor, of \<open>addEnabledConnection\<close> or of
  \<open>removeEnabledConnection\<close> is a synchronous throw of an ArgumentError whatever the
  callback argument is, a function included: the outcome is the thrown error, not a
  returned promise nor \<open>undefined\<close>, and the world is unchanged, so the callback was
  handed to no client and cannot be called with the error.
\<close>

theorem validation_throws_synchronously:
  "(\<not> well_formed_options opts \<longrightarrow>
      (\<exists>msg. OrganizationsManager opts w = (Inl (ArgumentError msg), w)))
   \<and> (\<not> present_string (param_of params ''id'') \<longrightarrow>
      (\<exists>msg. addEnabledConnection T M params data cb w = (Inl (ArgumentError msg), w)))
   \<and> (\<not> (present_string (param_of params ''id'')
           \<and> present_string (param_of params ''connection_id'')) \<longrightarrow>
      (\<exists>msg. removeEnabledConnection T M params cb w = (Inl (ArgumentError msg), w)))"
  using OrganizationsManager_rejects [of opts w]
    addEnabledConnection_invalid [of params T M data cb w]
    removeEnabledConnection_invalid [of params T M cb w]
  by blast

theorem validation_throws_synchronously_witness:
  "(\<exists>msg. OrganizationsManager (JObj [(''baseUrl'', JNum 7)]) [] = (Inl (ArgumentError msg), []))
   \<and> (\<exists>msg. addEnabledConnection (\<lambda>c m args. Inr JUndefined) (plain_manager ''https://tenant.example/api/v2'')
         (JObj [(''id'', JNum 123)]) (JObj []) (JFun 0) [] = (Inl (ArgumentError msg), []))
   \<and> (\<exists>msg. removeEnabledConnection (\<lambda>c m args. Inr JUndefined) (plain_manager ''https://tenant.example/api/v2'')
         (JObj [(''id'', JStr ''org1'')]) (JFun 0) [] = (Inl (ArgumentError msg), []))"
proof -
  have a: "\<not> well_formed_options (JObj [(''baseUrl'', JNum 7)])"
    by (simp add: well_formed_options_def)
  have b: "\<not> present_string (param_of (JObj [(''id'', JNum 123)]) ''id'')"
    by (simp add: present_string_def param_of_def js_or_def own_prop_def)
  have c: "\<not> (present_string (param_of (JObj [(''id'', JStr ''org1'')]) ''id'')
       \<and> present_string (param_of (JObj [(''id'', JStr ''org1'')]) ''connection_id''))"
    by (simp add: present_string_def param_of_def js_or_def own_prop_def)
  from a b c
    validation_throws_synchronously [of "JObj [(''baseUrl'', JNum 7)]" "[]"
      "JObj [(''id'', JNum 123)]" "\<lambda>c m args. Inr JUndefined"
      "plain_manager ''https://tenant.example/api/v2''" "JObj []" "JFun 0"]
    validation_throws_synchronously [of "JObj [(''baseUrl'', JNum 7)]" "[]"
      "JObj [(''id'', JStr ''org1'')]" "\<lambda>c m args. Inr JUndefined"
      "plain_manager ''https://tenant.example/api/v2''" "JObj []" "JFun 0"]
  show ?thesis by blast
qed

text \<open>
  C2. For a manager built on the base address \<open>b\<close>: whenever \<open>params.id\<close> is absent or is
  not a string (or is the empty string), \<open>addEnabledConnection\<close> throws an
  ArgumentError and the world is unchanged, so no call was made; this covers
  \<open>addEnabledConnection({}, data)\<close> and \<open>addEnabledConnection({ id: 123 }, data)\<close>.
  When \<open>params.id\<close> is a non-empty string \<open>s\<close>, it makes exactly one call, \<open>create\<close> on
  the connections client, with \<open>params\<close>, the data (or \<open>{}\<close>) and the callback when it is
  a function; for \<open>params\<close> that carry no connection identifier, as \<open>{ id: 'org1' }\<close>,
  the call resolves to \<open>b\<close> followed by \<open>/organizations/s/enabled_connections\<close>.
\<close>

theorem addEnabledConnection_guard:
  assumes "OrganizationsManager opts w0 = (Inr M, w1)"
    and "get_prop opts ''baseUrl'' = Inr (JStr b)"
    and "plain_base b"
  shows "(\<not> present_string (param_of params ''id'') \<longrightarrow>
            (\<exists>msg. addEnabledConnection T M params data cb w = (Inl (ArgumentError msg), w)))
       \<and> (\<forall>s. param_of params ''id'' = JStr s \<and> s \<noteq> [] \<longrightarrow>
            (\<exists>args. addEnabledConnection T M params data cb w =
                      (T (connections M) ''create'' args,
                       w @ [Call (connections M) ''create'' args])
                  \<and> args = [params, js_or data (JObj [])]
                           @ (if instanceof_Function cb then [cb] else [])
                  \<and> (param_value params ''connection_id'' = None \<longrightarrow>
                       request_url (connections M) args =
                         Inr (b @ ''/organizations/'' @ s @ ''/enabled_connections''))))"
proof (intro conjI allI impI)
  assume "\<not> present_string (param_of params ''id'')"
  then show "\<exists>msg. addEnabledConnection T M params data cb w = (Inl (ArgumentError msg), w)"
    by (rule addEnabledConnection_invalid)
next
  fix s
  assume a: "param_of params ''id'' = JStr s \<and> s \<noteq> []"
  then have p: "present_string (param_of params ''id'')"
    by (simp add: present_string_def)
  from a have v: "param_value params ''id'' = Some s"
    by (simp add: param_value_present)
  let ?args = "[params, js_or data (JObj [])] @ (if instanceof_Function cb then [cb] else [])"
  have u: "param_value params ''connection_id'' = None \<longrightarrow>
      request_url (connections M) ?args =
        Inr (b @ ''/organizations/'' @ s @ ''/enabled_connections'')"
    using request_url_connections_collection [OF _ assms(3) v]
      built_manager_clients [OF assms(1,2)]
    by simp
  show "\<exists>args. addEnabledConnection T M params data cb w =
                      (T (connections M) ''create'' args,
                       w @ [Call (connections M) ''create'' args])
                  \<and> args = [params, js_or data (JObj [])]
                           @ (if instanceof_Function cb then [cb] else [])
                  \<and> (param_value params ''connection_id'' = None \<longrightarrow>
                       request_url (connections M) args =
                         Inr (b @ ''/organizations/'' @ s @ ''/enabled_connections''))"
    using u by (intro exI [of _ ?args]) (simp add: addEnabledConnection_valid [OF p] invoke_def)
qed

theorem addEnabledConnection_guard_witness:
  "(\<exists>msg. addEnabledConnection (\<lambda>c m args. Inr JPromise) (plain_manager ''https://tenant.example/api/v2'')
       (JObj []) (JObj [(''connection_id'', JStr ''c1'')]) JUndefined []
       = (Inl (ArgumentError msg), []))
   \<and> (\<exists>msg. addEnabledConnection (\<lambda>c m args. Inr JPromise) (plain_manager ''https://tenant.example/api/v2'')
       (JObj [(''id'', JNum 123)]) (JObj [(''connection_id'', JStr ''c1'')]) JUndefined []
       = (Inl (ArgumentError msg), []))
   \<and> addEnabledConnection (\<lambda>c m args. Inr JPromise) (plain_manager ''https://tenant.example/api/v2'')
       (JObj [(''id'', JStr ''org1'')]) (JObj [(''connection_id'', JStr ''c1'')]) JUndefined []
       = (Inr JPromise,
          [Call (connections (plain_manager ''https://tenant.example/api/v2'')) ''create''
             [JObj [(''id'', JStr ''org1'')], JObj [(''connection_id'', JStr ''c1'')]]])
   \<and> request_url (connections (plain_manager ''https://tenant.example/api/v2''))
         [JObj [(''id'', JStr ''org1'')], JObj [(''connection_id'', JStr ''c1'')]]
       = Inr ''https://tenant.example/api/v2/organizations/org1/enabled_connections''"
proof -
  obtain evs where built:
    "OrganizationsManager (JObj [(''baseUrl'', JStr ''https://tenant.example/api/v2'')]) []
       = (Inr (plain_manager ''https://tenant.example/api/v2''), evs)"
    using plain_manager_built [of "''https://tenant.example/api/v2''" "[]"] by auto
  have base: "get_prop (JObj [(''baseUrl'', JStr ''https://tenant.example/api/v2'')]) ''baseUrl''
       = Inr (JStr ''https://tenant.example/api/v2'')"
    by (simp add: own_prop_def)
  note g = addEnabledConnection_guard [OF built base example_base,
      where T = "\<lambda>c m args. Inr JPromise" and data = "JObj [(''connection_id'', JStr ''c1'')]"
        and cb = JUndefined and w = "[]"]
  have a: "\<not> present_string (param_of (JObj []) ''id'')"
    and b: "\<not> present_string (param_of (JObj [(''id'', JNum 123)]) ''id'')"
    and c: "param_of (JObj [(''id'', JStr ''org1'')]) ''id'' = JStr ''org1''"
    and d: "param_value (JObj [(''id'', JStr ''org1'')]) ''connection_id'' = None"
    by (simp_all add: present_string_def param_of_def param_value_def js_or_def own_prop_def)
  from a g [where params = "JObj []"]
  have 1: "\<exists>msg. addEnabledConnection (\<lambda>c m args. Inr JPromise)
       (plain_manager ''https://tenant.example/api/v2'')
       (JObj []) (JObj [(''connection_id'', JStr ''c1'')]) JUndefined []
       = (Inl (ArgumentError msg), [])"
    by blast
  from b g [where params = "JObj [(''id'', JNum 123)]"]
  have 2: "\<exists>msg. addEnabledConnection (\<lambda>c m args. Inr JPromise)
       (plain_manager ''https://tenant.example/api/v2'')
       (JObj [(''id'', JNum 123)]) (JObj [(''connection_id'', JStr ''c1'')]) JUndefined []
       = (Inl (ArgumentError msg), [])"
    by blast
  from c d g [where params = "JObj [(''id'', JStr ''org1'')]"]
  have 3: "addEnabledConnection (\<lambda>c m args. Inr JPromise) (plain_manager ''https://tenant.example/api/v2'')
       (JObj [(''id'', JStr ''org1'')]) (JObj [(''connection_id'', JStr ''c1'')]) JUndefined []
       = (Inr JPromise,
          [Call (connections (plain_manager ''https://tenant.example/api/v2'')) ''create''
             [JObj [(''id'', JStr ''org1'')], JObj [(''connection_id'', JStr ''c1'')]]])
   \<and> request_url (connections (plain_manager ''https://tenant.example/api/v2''))
         [JObj [(''id'', JStr ''org1'')], JObj [(''connection_id'', JStr ''c1'')]]
       = Inr ''https://tenant.example/api/v2/organizations/org1/enabled_connections''"
    by (simp add: js_or_def)
  from 1 2 3 show ?thesis by blast
qed

text \<open>
  C3. For a manager built on the base address \<open>b\<close>: \<open>removeEnabledConnection\<close> throws an
  ArgumentError, the world unchanged, unless \<open>params.id\<close> and \<open>params.connection_id\<close>
  are both present strings. When they are the non-empty strings \<open>s\<close> and \<open>i\<close>, it makes
  exactly one call, \<open>delete\<close> on the connections client, with \<open>params\<close>, the empty
  object as the body and the callback when it is a function, and the call resolves to
  \<open>b\<close> followed by \<open>/organizations/s/enabled_connections/i\<close>.
\<close>

theorem removeEnabledConnection_guard:
  assumes "OrganizationsManager opts w0 = (Inr M, w1)"
    and "get_prop opts ''baseUrl'' = Inr (JStr b)"
    and "plain_base b"
  shows "(\<not> (present_string (param_of params ''id'')
              \<and> present_string (param_of params ''connection_id'')) \<longrightarrow>
            (\<exists>msg. removeEnabledConnection T M params cb w = (Inl (ArgumentError msg), w)))
       \<and> (\<forall>s i. param_of params ''id'' = JStr s \<and> s \<noteq> []
                 \<and> param_of params ''connection_id'' = JStr i \<and> i \<noteq> [] \<longrightarrow>
            (\<exists>args. removeEnabledConnection T M params cb w =
                      (T (connections M) ''delete'' args,
                       w @ [Call (connections M) ''delete'' args])
                  \<and> args = [params, JObj []] @ (if instanceof_Function cb then [cb] else [])
                  \<and> request_url (connections M) args =
                      Inr (b @ ''/organizations/'' @ s @ ''/enabled_connections/'' @ i)))"
proof (intro conjI allI impI)
  assume "\<not> (present_string (param_of params ''id'')
              \<and> present_string (param_of params ''connection_id''))"
  then show "\<exists>msg. removeEnabledConnection T M params cb w = (Inl (ArgumentError msg), w)"
    by (rule removeEnabledConnection_invalid)
next
  fix s i
  assume a: "param_of params ''id'' = JStr s \<and> s \<noteq> []
                 \<and> param_of params ''connection_id'' = JStr i \<and> i \<noteq> []"
  then have p: "present_string (param_of params ''id'')"
    and q: "present_string (param_of params ''connection_id'')"
    by (simp_all add: present_string_def)
  from a have v: "param_value params ''id'' = Some s"
    and v': "param_value params ''connection_id'' = Some i"
    by (simp_all add: param_value_present)
  let ?args = "[params, JObj []] @ (if instanceof_Function cb then [cb] else [])"
  have u: "request_url (connections M) ?args =
        Inr (b @ ''/organizations/'' @ s @ ''/enabled_connections/'' @ i)"
    using request_url_connections_item [OF _ assms(3) v v']
      built_manager_clients [OF assms(1,2)]
    by simp
  show "\<exists>args. removeEnabledConnection T M params cb w =
                      (T (connections M) ''delete'' args,
                       w @ [Call (connections M) ''delete'' args])
                  \<and> args = [params, JObj []] @ (if instanceof_Function cb then [cb] else [])
                  \<and> request_url (connections M) args =
                      Inr (b @ ''/organizations/'' @ s @ ''/enabled_connections/'' @ i)"
    using u by (intro exI [of _ ?args]) (simp add: removeEnabledConnection_valid [OF p q] invoke_def)
qed

theorem removeEnabledConnection_guard_witness:
  "(\<exists>msg. removeEnabledConnection (\<lambda>c m args. Inr JUndefined) (plain_manager ''https://tenant.example/api/v2'')
       (JObj [(''id'', JStr ''org1'')]) (JFun 0) [] = (Inl (ArgumentError msg), []))
   \<and> removeEnabledConnection (\<lambda>c m args. Inr JUndefined) (plain_manager ''https://tenant.example/api/v2'')
       (JObj [(''id'', JStr ''org1''), (''connection_id'', JStr ''c1'')]) (JFun 0) []
       = (Inr JUndefined,
          [Call (connections (plain_manager ''https://tenant.example/api/v2'')) ''delete''
             [JObj [(''id'', JStr ''org1''), (''connection_id'', JStr ''c1'')], JObj [], JFun 0]])
   \<and> request_url (connections (plain_manager ''https://tenant.example/api/v2''))
         [JObj [(''id'', JStr ''org1''), (''connection_id'', JStr ''c1'')], JObj [], JFun 0]
       = Inr ''https://tenant.example/api/v2/organizations/org1/enabled_connections/c1''"
proof -
  obtain evs where built:
    "OrganizationsManager (JObj [(''baseUrl'', JStr ''https://tenant.example/api/v2'')]) []
       = (Inr (plain_manager ''https://tenant.example/api/v2''), evs)"
    using plain_manager_built [of "''https://tenant.example/api/v2''" "[]"] by auto
  have base: "get_prop (JObj [(''baseUrl'', JStr ''https://tenant.example/api/v2'')]) ''baseUrl''
       = Inr (JStr ''https://tenant.example/api/v2'')"
    by (simp add: own_prop_def)
  note g = removeEnabledConnection_guard [OF built base example_base,
      where T = "\<lambda>c m args. Inr JUndefined" and cb = "JFun 0" and w = "[]"]
  have a: "\<not> (present_string (param_of (JObj [(''id'', JStr ''org1'')]) ''id'')
        \<and> present_string (param_of (JObj [(''id'', JStr ''org1'')]) ''connection_id''))"
    and c: "param_of (JObj [(''id'', JStr ''org1''), (''connection_id'', JStr ''c1'')]) ''id''
        = JStr ''org1''"
    and d: "param_of (JObj [(''id'', JStr ''org1''), (''connection_id'', JStr ''c1'')])
        ''connection_id'' = JStr ''c1''"
    by (simp_all add: present_string_def param_of_def js_or_def own_prop_def)
  from a g [where params = "JObj [(''id'', JStr ''org1'')]"]
  have 1: "\<exists>msg. removeEnabledConnection (\<lambda>c m args. Inr JUndefined)
       (plain_manager ''https://tenant.example/api/v2'')
       (JObj [(''id'', JStr ''org1'')]) (JFun 0) [] = (Inl (ArgumentError msg), [])"
    by blast
  from c d g [where params = "JObj [(''id'', JStr ''org1''), (''connection_id'', JStr ''c1'')]"]
  have 2: "removeEnabledConnection (\<lambda>c m args. Inr JUndefined) (plain_manager ''https://tenant.example/api/v2'')
       (JObj [(''id'', JStr ''org1''), (''connection_id'', JStr ''c1'')]) (JFun 0) []
       = (Inr JUndefined,
          [Call (connections (plain_manager ''https://tenant.example/api/v2'')) ''delete''
             [JObj [(''id'', JStr ''org1''), (''connection_id'', JStr ''c1'')], JObj [], JFun 0]])
   \<and> request_url (connections (plain_manager ''https://tenant.example/api/v2''))
         [JObj [(''id'', JStr ''org1''), (''connection_id'', JStr ''c1'')], JObj [], JFun 0]
       = Inr ''https://tenant.example/api/v2/organizations/org1/enabled_connections/c1''"
    by simp
  from 1 2 show ?thesis by blast
qed

text \<open>
  C10. \<open>addEnabledConnection\<close> and \<open>removeEnabledConnection\<close> called with \<open>params\<close>
  omitted (\<open>undefined\<close>) or \<open>null\<close> throw the ArgumentError about the missing
  organization ID; for no \<open>params\<close> at all does either method itself raise a TypeError
  (an error of the manager's own leaves the world as it was); and an omitted \<open>data\<close>
  reaches the client as \<open>{}\<close>.
\<close>

theorem omitted_params_default:
  "addEnabledConnection T M JUndefined data cb w =
     (Inl (ArgumentError ''The organizationId passed in params cannot be null or undefined''), w)
   \<and> addEnabledConnection T M JNull data cb w =
     (Inl (ArgumentError ''The organizationId passed in params cannot be null or undefined''), w)
   \<and> removeEnabledConnection T M JUndefined cb w =
     (Inl (ArgumentError ''The organization ID passed in params cannot be null or undefined''), w)
   \<and> removeEnabledConnection T M JNull cb w =
     (Inl (ArgumentError ''The organization ID passed in params cannot be null or undefined''), w)
   \<and> addEnabledConnection T M params data cb w \<noteq> (Inl (TypeError m), w)
   \<and> removeEnabledConnection T M params cb w \<noteq> (Inl (TypeError m), w)
   \<and> (present_string (param_of params ''id'') \<longrightarrow>
        addEnabledConnection T M params JUndefined JUndefined w =
          (T (connections M) ''create'' [params, JObj []],
           w @ [Call (connections M) ''create'' [params, JObj []]]))"
proof -
  have 1: "addEnabledConnection T M JUndefined data cb w =
     (Inl (ArgumentError ''The organizationId passed in params cannot be null or undefined''), w)"
    by (simp add: addEnabledConnection_def js_or_def own_prop_def Let_def)
  have 2: "addEnabledConnection T M JNull data cb w =
     (Inl (ArgumentError ''The organizationId passed in params cannot be null or undefined''), w)"
    by (simp add: addEnabledConnection_def js_or_def own_prop_def Let_def)
  have 3: "removeEnabledConnection T M JUndefined cb w =
     (Inl (ArgumentError ''The organization ID passed in params cannot be null or undefined''), w)"
    by (simp add: removeEnabledConnection_def js_or_def own_prop_def Let_def)
  have 4: "removeEnabledConnection T M JNull cb w =
     (Inl (ArgumentError ''The organization ID passed in params cannot be null or undefined''), w)"
    by (simp add: removeEnabledConnection_def js_or_def own_prop_def Let_def)
  have 5: "present_string (param_of params ''id'') \<longrightarrow>
        addEnabledConnection T M params JUndefined JUndefined w =
          (T (connections M) ''create'' [params, JObj []],
           w @ [Call (connections M) ''create'' [params, JObj []]])"
    by (simp add: addEnabledConnection_valid invoke_def js_or_def)
  from 1 2 3 4 5 addEnabledConnection_no_TypeError removeEnabledConnection_no_TypeError
  show ?thesis by blast
qed

theorem omitted_params_default_witness:
  "addEnabledConnection (\<lambda>c m args. Inr JPromise) (plain_manager ''https://tenant.example/api/v2'')
      (JObj [(''id'', JStr ''org1'')]) JUndefined JUndefined [] =
     (Inr JPromise,
      [Call (connections (plain_manager ''https://tenant.example/api/v2'')) ''create''
         [JObj [(''id'', JStr ''org1'')], JObj []]])"
proof -
  have a: "present_string (param_of (JObj [(''id'', JStr ''org1'')]) ''id'')"
    by (simp add: present_string_def param_of_def js_or_def own_prop_def)
  from a omitted_params_default [of "\<lambda>c m args. Inr JPromise"
      "plain_manager ''https://tenant.example/api/v2''" JUndefined JUndefined "[]"
      "JObj [(''id'', JStr ''org1'')]"]
  show ?thesis by simp
qed

end
